theory Spec2Isabelle
  imports Main
begin

section \<open>Python values\<close>

text \<open>
  A Python \<^verbatim>\<open>str\<close> is a sequence of Unicode code points, and \<^verbatim>\<open>len\<close> counts code
  points, so a string is a list of code point numbers. ASCII literals of the source are
  written with \<open>lit\<close>; the Chinese literals are written as their code points.
\<close>

type_synonym pystr = "nat list"

definition lit :: "string \<Rightarrow> pystr" where
  "lit s = map of_char s"

text \<open>The code points for which \<^verbatim>\<open>str.isspace\<close> holds: what \<^verbatim>\<open>str.strip()\<close> removes.\<close>

definition is_space :: "nat \<Rightarrow> bool" where
  "is_space c \<longleftrightarrow>
     (9 \<le> c \<and> c \<le> 13) \<or> (28 \<le> c \<and> c \<le> 32) \<or> c = 133 \<or> c = 160 \<or> c = 5760 \<or>
     (8192 \<le> c \<and> c \<le> 8202) \<or> c = 8232 \<or> c = 8233 \<or> c = 8239 \<or> c = 8287 \<or> c = 12288"

definition strip :: "pystr \<Rightarrow> pystr" where
  "strip s = rev (dropWhile is_space (rev (dropWhile is_space s)))"

fun digits :: "nat \<Rightarrow> pystr" where
  "digits n = (if n < 10 then [48 + n] else digits (n div 10) @ [48 + n mod 10])"

declare digits.simps [simp del]

definition str_int :: "int \<Rightarrow> pystr" where
  "str_int i = (if i < 0 then 45 # digits (nat (- i)) else digits (nat i))"

text \<open>
  The exceptions the scripts raise or catch. \<open>exn_str\<close> is \<^verbatim>\<open>str(e)\<close>: the message, and
  for a \<^verbatim>\<open>KeyError\<close> the quoted key.
\<close>

datatype pyexn =
    FileNotFoundError pystr
  | IndexError nat nat
  | KeyError string
  | Exception pystr

fun exn_str :: "pyexn \<Rightarrow> pystr" where
  "exn_str (FileNotFoundError m) = m"
| "exn_str (IndexError i n) =
     lit ''index '' @ digits i @ lit '' is out of bounds for axis 0 with size '' @ digits n"
| "exn_str (KeyError k) = lit [CHR 0x27] @ lit k @ lit [CHR 0x27]"
| "exn_str (Exception m) = m"

section \<open>Spreadsheets\<close>

text \<open>
  A cell of a data frame is empty (NaN), text or a whole number. A row is read by column
  name (\<^verbatim>\<open>row[col]\<close>) with names taken from the frame's own \<^verbatim>\<open>columns\<close>, so it is
  a function from column names to cells. Floating-point and date cells are outside the model.
\<close>

datatype cell = CNaN | CStr pystr | CInt int

type_synonym row = "pystr \<Rightarrow> cell"

record dataframe =
  columns :: "pystr list"
  rows :: "row list"

definition notna :: "cell \<Rightarrow> bool" where
  "notna c \<longleftrightarrow> c \<noteq> CNaN"

fun py_str :: "cell \<Rightarrow> pystr" where
  "py_str (CStr s) = s"
| "py_str (CInt n) = str_int n"
| "py_str CNaN = lit ''nan''"

text \<open>\<^verbatim>\<open>str(row[col]) if pd.notna(row[col]) else ""\<close>\<close>

definition cell_text :: "cell \<Rightarrow> pystr" where
  "cell_text c = (if notna c then py_str c else [])"

text \<open>\<^verbatim>\<open>status == 1\<close>: a number equal to one; a text cell never equals the number.\<close>

fun eq_one :: "cell \<Rightarrow> bool" where
  "eq_one (CInt n) = (n = 1)"
| "eq_one (CStr s) = False"
| "eq_one CNaN = False"

text \<open>\<^verbatim>\<open>df.columns[i]\<close>, which raises IndexError out of range.\<close>

definition column_at :: "pystr list \<Rightarrow> nat \<Rightarrow> pyexn + pystr" where
  "column_at cols i = (if i < length cols then Inr (cols ! i) else Inl (IndexError i (length cols)))"

section \<open>The corpus builder (4\_rag/2c\_rag\_excel.py)\<close>

record doc_metadata =
  md_source :: pystr
  md_row_index :: nat
  md_question :: pystr
  md_answer :: pystr
  md_status :: cell
  md_has_correction :: bool

record document =
  page_content :: pystr
  metadata :: doc_metadata

text \<open>
  The workbook's name of line 10: the eight characters U+667A U+80FD U+8F85 U+52A9 U+56DE
  U+7B54 U+5BA1 U+6838 followed by \<^verbatim>\<open>.xlsx\<close>.
\<close>

definition excel_name :: pystr where
  "excel_name = [26234, 33021, 36741, 21161, 22238, 31572, 23457, 26680] @ lit ''.xlsx''"

text \<open>
  Lines 33 to 41: the four column roles are taken by position. Columns 0, 1 and 2 are read
  unconditionally, the fourth only when it exists; any exception is raised again as
  \<^verbatim>\<open>Exception("Error reading Excel file: ...")\<close>.
\<close>

definition reading_error :: "pyexn \<Rightarrow> pyexn" where
  "reading_error e = Exception (lit ''Error reading Excel file: '' @ exn_str e)"

definition resolve_columns :: "pystr list \<Rightarrow> pyexn + (pystr \<times> pystr \<times> pystr \<times> pystr option)" where
  "resolve_columns cols =
     (case column_at cols 0 of
        Inl e \<Rightarrow> Inl (reading_error e)
      | Inr question_col \<Rightarrow>
     (case column_at cols 1 of
        Inl e \<Rightarrow> Inl (reading_error e)
      | Inr answer_col \<Rightarrow>
     (case column_at cols 2 of
        Inl e \<Rightarrow> Inl (reading_error e)
      | Inr status_col \<Rightarrow>
          Inr (question_col, answer_col, status_col,
               if length cols > 3 then Some (cols ! 3) else None))))"

text \<open>
  The body of the loop of lines 46 to 74 for one row: \<open>None\<close> is the \<^verbatim>\<open>continue\<close> of
  line 54, \<open>Some\<close> the document appended at line 74. A column name is truthy when it is
  not the empty string.
\<close>

definition corrected_text :: "pystr option \<Rightarrow> row \<Rightarrow> pystr" where
  "corrected_text corrected_col r =
     (case corrected_col of
        None \<Rightarrow> []
      | Some c \<Rightarrow> if c \<noteq> [] \<and> notna (r c) then py_str (r c) else [])"

definition final_answer :: "cell \<Rightarrow> pystr \<Rightarrow> pystr \<Rightarrow> pystr" where
  "final_answer status corrected_answer answer =
     (if eq_one status \<and> strip corrected_answer \<noteq> [] then corrected_answer else answer)"

definition row_document ::
  "pystr \<Rightarrow> pystr \<Rightarrow> pystr \<Rightarrow> pystr option \<Rightarrow> nat \<Rightarrow> row \<Rightarrow> document option" where
  "row_document question_col answer_col status_col corrected_col index r =
     (let question = cell_text (r question_col);
          answer = cell_text (r answer_col);
          status = (if notna (r status_col) then r status_col else CInt 0);
          corrected_answer = corrected_text corrected_col r
      in if strip question = [] \<or> strip answer = [] then None
         else
           let fa = final_answer status corrected_answer answer
           in Some \<lparr>page_content = lit ''Q: '' @ strip question @ [10] @ lit ''A: '' @ strip fa,
                    metadata = \<lparr>md_source = excel_name,
                                md_row_index = index,
                                md_question = strip question,
                                md_answer = strip fa,
                                md_status = status,
                                md_has_correction =
                                  (if corrected_answer \<noteq> [] then strip corrected_answer \<noteq> []
                                   else False)\<rparr>\<rparr>)"

fun build_documents ::
  "pystr \<Rightarrow> pystr \<Rightarrow> pystr \<Rightarrow> pystr option \<Rightarrow> nat \<Rightarrow> row list \<Rightarrow> document list \<Rightarrow> document list" where
  "build_documents qc ac sc cc index [] documents = documents"
| "build_documents qc ac sc cc index (r # rest) documents =
     (case row_document qc ac sc cc index r of
        None \<Rightarrow> build_documents qc ac sc cc (Suc index) rest documents
      | Some doc \<Rightarrow> build_documents qc ac sc cc (Suc index) rest (documents @ [doc]))"

section \<open>The QA extractor (run/process\_data/excel2QAjson.py)\<close>

record qa_metadata =
  qm_source :: pystr
  qm_row_index :: nat
  qm_question_length :: nat
  qm_answer_length :: nat
  qm_used_corrected_answer :: bool

record qa_pair =
  qa_id :: nat
  qa_question :: pystr
  qa_answer :: pystr
  qa_metadata :: qa_metadata

text \<open>
  The recognised column names of lines 60 to 62, five for each role: a Chinese name, two
  ASCII names and two more Chinese names, in the order of the source. The Chinese names
  are given by their code points: U+95EE U+9898 is the word for question, U+7B54 U+6848
  the word for answer, U+533B U+751F U+66F4 U+6B63 U+7B54 U+6848 the doctor's corrected
  answer; U+5217 (column) and U+5185 U+5BB9 (content) are the suffixes.
\<close>

definition possible_question_cols :: "pystr list" where
  "possible_question_cols =
     [[38382, 39064], lit ''question'', lit ''Question'', [38382, 39064, 21015],
      [38382, 39064, 20869, 23481]]"

definition possible_answer_cols :: "pystr list" where
  "possible_answer_cols =
     [[31572, 26696], lit ''answer'', lit ''Answer'', [31572, 26696, 21015],
      [31572, 26696, 20869, 23481]]"

definition possible_corrected_answer_cols :: "pystr list" where
  "possible_corrected_answer_cols =
     [[21307, 29983, 26356, 27491, 31572, 26696], lit ''corrected_answer'',
      lit ''CorrectedAnswer'', [26356, 27491, 31572, 26696], [21307, 29983, 31572, 26696]]"

text \<open>The loop of lines 64 to 70: a later column of the same role replaces an earlier one.\<close>

fun find_columns ::
  "pystr list \<Rightarrow> pystr option \<times> pystr option \<times> pystr option \<Rightarrow>
   pystr option \<times> pystr option \<times> pystr option" where
  "find_columns [] found = found"
| "find_columns (col # cols) (question_col, answer_col, corrected_answer_col) =
     (if col \<in> set possible_question_cols
      then find_columns cols (Some col, answer_col, corrected_answer_col)
      else if col \<in> set possible_answer_cols
      then find_columns cols (question_col, Some col, corrected_answer_col)
      else if col \<in> set possible_corrected_answer_cols
      then find_columns cols (question_col, answer_col, Some col)
      else find_columns cols (question_col, answer_col, corrected_answer_col))"

text \<open>
  Lines 72 to 80: without both standard names the first two columns are used, and with
  fewer than two columns nothing is extracted (\<open>None\<close> is the \<^verbatim>\<open>return []\<close>).
\<close>

definition resolve_qa_columns :: "pystr list \<Rightarrow> (pystr \<times> pystr \<times> pystr option) option" where
  "resolve_qa_columns cols =
     (case find_columns cols (None, None, None) of
        (question_col, answer_col, corrected_answer_col) \<Rightarrow>
          (case (question_col, answer_col) of
             (Some q, Some a) \<Rightarrow> Some (q, a, corrected_answer_col)
           | _ \<Rightarrow> if length cols \<ge> 2 then Some (cols ! 0, cols ! 1, corrected_answer_col)
                  else None))"

text \<open>The Q\&A workbook's name, \<^verbatim>\<open>"Q&A.xlsx"\<close>.\<close>

definition qa_source :: pystr where
  "qa_source = lit ''Q&A.xlsx''"

text \<open>
  The body of the loop of lines 90 to 121 for one row. The corrected answer replaces the
  answer whenever its column was found and its trimmed text is not empty; no status is
  read. The row is skipped only when question and answer are both empty.
\<close>

definition qa_corrected :: "pystr option \<Rightarrow> row \<Rightarrow> pystr" where
  "qa_corrected corrected_answer_col r =
     (case corrected_answer_col of
        None \<Rightarrow> []
      | Some c \<Rightarrow> if c \<noteq> [] \<and> notna (r c) then strip (py_str (r c)) else [])"

definition row_qa_pair :: "pystr \<Rightarrow> pystr \<Rightarrow> pystr option \<Rightarrow> nat \<Rightarrow> row \<Rightarrow> qa_pair option" where
  "row_qa_pair question_col answer_col corrected_answer_col index r =
     (let question = cell_text (r question_col);
          corrected_answer = qa_corrected corrected_answer_col r;
          used_corrected = (corrected_answer \<noteq> []);
          answer = (if used_corrected then corrected_answer else cell_text (r answer_col))
      in if strip question = [] \<and> strip answer = [] then None
         else Some \<lparr>qa_id = index + 1,
                    qa_question = strip question,
                    qa_answer = strip answer,
                    qa_metadata = \<lparr>qm_source = qa_source,
                                   qm_row_index = index + 1,
                                   qm_question_length = length (strip question),
                                   qm_answer_length = length (strip answer),
                                   qm_used_corrected_answer = used_corrected\<rparr>\<rparr>)"

fun extract_rows ::
  "pystr \<Rightarrow> pystr \<Rightarrow> pystr option \<Rightarrow> nat \<Rightarrow> row list \<Rightarrow> qa_pair list \<Rightarrow> qa_pair list" where
  "extract_rows qc ac cc index [] qa_pairs = qa_pairs"
| "extract_rows qc ac cc index (r # rest) qa_pairs =
     (case row_qa_pair qc ac cc index r of
        None \<Rightarrow> extract_rows qc ac cc (Suc index) rest qa_pairs
      | Some p \<Rightarrow> extract_rows qc ac cc (Suc index) rest (qa_pairs @ [p]))"

text \<open>
  The processor object: its path and the frame loaded so far. The files are a function
  from a path to what \<^verbatim>\<open>pd.read_excel\<close> makes of it (a frame, or the exception it
  raises); \<^verbatim>\<open>nrows\<close> keeps the first rows of the sheet.
\<close>

record processor =
  excel_file_path :: pystr
  data :: "dataframe option"

definition read_excel :: "(pystr \<Rightarrow> pyexn + dataframe) \<Rightarrow> pystr \<Rightarrow> nat option \<Rightarrow> pyexn + dataframe" where
  "read_excel files path nrows =
     (case files path of
        Inl e \<Rightarrow> Inl e
      | Inr df \<Rightarrow> (case nrows of None \<Rightarrow> Inr df
                               | Some n \<Rightarrow> Inr (df\<lparr>rows := take n (rows df)\<rparr>)))"

definition load_excel_data ::
  "(pystr \<Rightarrow> pyexn + dataframe) \<Rightarrow> processor \<Rightarrow> nat \<Rightarrow> dataframe option \<times> processor" where
  "load_excel_data files self max_rows =
     (case read_excel files (excel_file_path self) (Some max_rows) of
        Inl e \<Rightarrow> (None, self)
      | Inr df \<Rightarrow> (Some df, self\<lparr>data := Some df\<rparr>))"

definition extract_qa_pairs :: "processor \<Rightarrow> qa_pair list" where
  "extract_qa_pairs self =
     (case data self of
        None \<Rightarrow> []
      | Some df \<Rightarrow>
          (case resolve_qa_columns (columns df) of
             None \<Rightarrow> []
           | Some (question_col, answer_col, corrected_answer_col) \<Rightarrow>
               extract_rows question_col answer_col corrected_answer_col 0 (rows df) []))"

text \<open>
  \<^verbatim>\<open>main\<close> (lines 207 to 248), up to the pairs it hands to \<^verbatim>\<open>save_to_json\<close>: \<open>None\<close>
  when it returns before saving.
\<close>

definition main_qa_pairs :: "(pystr \<Rightarrow> pyexn + dataframe) \<Rightarrow> processor \<Rightarrow> qa_pair list option" where
  "main_qa_pairs files processor0 =
     (case load_excel_data files processor0 200 of
        (None, _) \<Rightarrow> None
      | (Some df, self) \<Rightarrow>
          (let qa_pairs = extract_qa_pairs self
           in if qa_pairs = [] then None else Some qa_pairs))"

section \<open>The build script around the loop (4\_rag/2c\_rag\_excel.py)\<close>

text \<open>
  The script touches the world through \<^verbatim>\<open>os.path.exists\<close>, \<^verbatim>\<open>pd.read_excel\<close>, the
  splitter and \<^verbatim>\<open>Chroma.from_documents\<close>. The world is the set of existing paths and
  what each workbook parses to; the splitter and the store write are libraries, taken as
  parameters. A run returns the actions it performed, in order: what it printed and which
  build steps it took. A printed line is given by its kind and the values it shows; the
  header lines and the split of one report over several lines are left out.
\<close>

record world =
  existing :: "pystr set"
  excel_files :: "pystr \<Rightarrow> pyexn + dataframe"

datatype message =
    MsgInitializing
  | MsgReading
  | MsgLoaded nat nat
  | MsgColumns "pystr list"
  | MsgUsing pystr pystr pystr "pystr option"
  | MsgCreated nat
  | MsgChunkCount nat
  | MsgSample document
  | MsgCreatingEmbeddings
  | MsgFinishedEmbeddings
  | MsgCreatingStore
  | MsgFinishedStore
  | MsgStatistics nat nat nat nat
  | MsgAlreadyExists

datatype action =
    Say message
  | ReadExcel pystr
  | SplitDocuments
  | CreateEmbeddings
  | StoreWrite pystr

definition not_found_message :: "pystr \<Rightarrow> pystr" where
  "not_found_message file_path =
     lit ''The file '' @ file_path @ lit '' does not exist. Please check the path.''"

definition sample_messages :: "document list \<Rightarrow> action list" where
  "sample_messages docs = (case docs of [] \<Rightarrow> [] | d # _ \<Rightarrow> [Say (MsgSample d)])"

definition reviewed_count :: "document list \<Rightarrow> nat" where
  "reviewed_count documents = length (filter (\<lambda>d. eq_one (md_status (metadata d))) documents)"

definition corrected_count :: "document list \<Rightarrow> nat" where
  "corrected_count documents = length (filter (\<lambda>d. md_has_correction (metadata d)) documents)"

definition builder ::
  "(document list \<Rightarrow> document list) \<Rightarrow>
   (document list \<Rightarrow> pystr \<Rightarrow> world \<Rightarrow> pyexn option \<times> world) \<Rightarrow>
   pystr \<Rightarrow> pystr \<Rightarrow> world \<Rightarrow> action list \<times> pyexn option \<times> world" where
  "builder split_documents from_documents file_path persistent_directory w =
     (if persistent_directory \<notin> existing w then
        (if file_path \<notin> existing w
         then ([Say MsgInitializing], Some (FileNotFoundError (not_found_message file_path)), w)
         else
           (case read_excel (excel_files w) file_path None of
              Inl e \<Rightarrow>
                ([Say MsgInitializing, Say MsgReading, ReadExcel file_path],
                 Some (reading_error e), w)
            | Inr df \<Rightarrow>
                (let loaded = [Say MsgInitializing, Say MsgReading, ReadExcel file_path,
                               Say (MsgLoaded (length (rows df)) (length (columns df))),
                               Say (MsgColumns (columns df))]
                 in case resolve_columns (columns df) of
                      Inl e \<Rightarrow> (loaded, Some e, w)
                    | Inr (question_col, answer_col, status_col, corrected_col) \<Rightarrow>
                        (let documents =
                               build_documents question_col answer_col status_col corrected_col
                                 0 (rows df) [];
                             docs = split_documents documents;
                             before_store =
                               loaded @
                               [Say (MsgUsing question_col answer_col status_col corrected_col),
                                Say (MsgCreated (length documents)), SplitDocuments,
                                Say (MsgChunkCount (length docs))] @ sample_messages docs @
                               [Say MsgCreatingEmbeddings, CreateEmbeddings,
                                Say MsgFinishedEmbeddings, Say MsgCreatingStore,
                                StoreWrite persistent_directory]
                         in case from_documents docs persistent_directory w of
                              (Some e, w') \<Rightarrow> (before_store, Some e, w')
                            | (None, w') \<Rightarrow>
                                (before_store @
                                 [Say MsgFinishedStore,
                                  Say (MsgStatistics (length documents) (length docs)
                                         (reviewed_count documents) (corrected_count documents))],
                                 None, w')))))
      else ([Say MsgAlreadyExists], None, w))"

text \<open>The steps that make up a build: reading the workbook, chunking, writing the store.\<close>

fun build_step :: "action \<Rightarrow> bool" where
  "build_step (Say m) = False"
| "build_step (ReadExcel p) = True"
| "build_step SplitDocuments = True"
| "build_step CreateEmbeddings = True"
| "build_step (StoreWrite p) = True"

section \<open>The batch pipelines\<close>

text \<open>
  A QA pair loaded from the JSON dataset is a dictionary; \<^verbatim>\<open>qa_pair["question"]\<close>
  raises KeyError when the key is missing. An output record is one line of the JSONL log.
  Opening, writing and printing are taken not to fail, and elapsed times are left out.
\<close>

type_synonym qa_dict = "string \<rightharpoonup> pystr"

definition getitem :: "qa_dict \<Rightarrow> string \<Rightarrow> pyexn + pystr" where
  "getitem d k = (case d k of None \<Rightarrow> Inl (KeyError k) | Some v \<Rightarrow> Inr v)"

record out_record =
  user_input :: pystr
  response :: pystr
  retrieved_contexts :: pystr

subsection \<open>Plain generation (run/basellm.py)\<close>

text \<open>
  What \<^verbatim>\<open>qa_chain.invoke\<close> returns: a message with a \<^verbatim>\<open>content\<close> attribute, or some
  other object, given by its \<^verbatim>\<open>str\<close>. The call itself is a parameter that may raise.
\<close>

datatype llm_result = Content pystr | NoContent pystr

definition get_llm_response :: "(pystr \<Rightarrow> pyexn + llm_result) \<Rightarrow> pystr \<Rightarrow> pystr" where
  "get_llm_response invoke question =
     (case invoke question of
        Inr (Content c) \<Rightarrow> c
      | Inr (NoContent s) \<Rightarrow> s
      | Inl e \<Rightarrow> lit ''Error: '' @ exn_str e)"

record question_result =
  json_record :: out_record
  res_question :: pystr
  res_llm_response :: pystr

definition process_single_question ::
  "(pystr \<Rightarrow> pyexn + llm_result) \<Rightarrow> qa_dict \<Rightarrow> pyexn + question_result" where
  "process_single_question invoke qa_pair =
     (case getitem qa_pair ''question'' of
        Inl e \<Rightarrow> Inl e
      | Inr question \<Rightarrow>
     (case getitem qa_pair ''answer'' of
        Inl e \<Rightarrow> Inl e
      | Inr ground_truth_answer \<Rightarrow>
          (let llm_response = get_llm_response invoke question
           in Inr \<lparr>json_record = \<lparr>user_input = question, response = llm_response,
                                    retrieved_contexts = ground_truth_answer\<rparr>,
                   res_question = question,
                   res_llm_response = llm_response\<rparr>)))"

text \<open>
  Lines 156 to 160, the record of the \<^verbatim>\<open>except\<close> branch. Its \<^verbatim>\<open>qa_pair\<close> is the
  variable of the submitting loop of line 127, which that loop left bound to the last pair.
\<close>

definition error_record :: "qa_dict \<Rightarrow> pyexn \<Rightarrow> pyexn + out_record" where
  "error_record qa_pair e =
     (case getitem qa_pair ''question'' of
        Inl e' \<Rightarrow> Inl e'
      | Inr q \<Rightarrow>
     (case getitem qa_pair ''answer'' of
        Inl e' \<Rightarrow> Inl e'
      | Inr a \<Rightarrow> Inr \<lparr>user_input = q, response = lit ''Error: '' @ exn_str e,
                       retrieved_contexts = a\<rparr>))"

record batch_run =
  written :: "out_record list"
  raised :: "pyexn option"
  processed_count :: nat

text \<open>
  The collecting loop of lines 136 to 162 over the futures, in submission order. An
  exception raised inside the \<^verbatim>\<open>except\<close> branch leaves the loop and ends the run.
\<close>

fun collect_results :: "qa_dict \<Rightarrow> (pyexn + question_result) list \<Rightarrow> batch_run \<Rightarrow> batch_run" where
  "collect_results qa_pair [] run = run"
| "collect_results qa_pair (future # futures) run =
     (case future of
        Inr result \<Rightarrow>
          collect_results qa_pair futures
            (run\<lparr>written := written run @ [json_record result],
                 processed_count := processed_count run + 1\<rparr>)
      | Inl e \<Rightarrow>
          (case error_record qa_pair e of
             Inl e' \<Rightarrow> run\<lparr>raised := Some e'\<rparr>
           | Inr r \<Rightarrow> collect_results qa_pair futures (run\<lparr>written := written run @ [r]\<rparr>)))"

definition submit_all ::
  "(nat \<Rightarrow> pystr \<Rightarrow> pyexn + llm_result) \<Rightarrow> qa_dict list \<Rightarrow> (pyexn + question_result) list" where
  "submit_all llm qa_pairs =
     map (\<lambda>(i, qa_pair). process_single_question (llm i) qa_pair) (enumerate 0 qa_pairs)"

definition process_all_questions ::
  "(nat \<Rightarrow> pystr \<Rightarrow> pyexn + llm_result) \<Rightarrow> qa_dict list \<Rightarrow> batch_run" where
  "process_all_questions llm qa_pairs =
     (if qa_pairs = [] then \<lparr>written = [], raised = None, processed_count = 0\<rparr>
      else collect_results (last qa_pairs) (submit_all llm qa_pairs)
             \<lparr>written = [], raised = None, processed_count = 0\<rparr>)"

subsection \<open>Retrieval-augmented generation (run/rag.py)\<close>








section \<open>Lemmas about the loops and about trimming\<close>

lemma build_documents_acc:
  "build_documents qc ac sc cc i rs acc =
     acc @ List.map_filter (\<lambda>(j, r). row_document qc ac sc cc j r) (enumerate i rs)"
  by (induction rs arbitrary: i acc) (auto simp: List.map_filter_simps split: option.splits)

lemma extract_rows_acc:
  "extract_rows qc ac cc i rs acc =
     acc @ List.map_filter (\<lambda>(j, r). row_qa_pair qc ac cc j r) (enumerate i rs)"
  by (induction rs arbitrary: i acc) (auto simp: List.map_filter_simps split: option.splits)

lemma dropWhile_snoc_keep: "\<not> P x \<Longrightarrow> dropWhile P (ys @ [x]) = dropWhile P ys @ [x]"
  by (induction ys) auto

lemma strip_head: "s \<noteq> [] \<Longrightarrow> \<not> is_space (hd s) \<Longrightarrow> dropWhile is_space (strip s) = strip s"
proof -
  assume "s \<noteq> []" and h: "\<not> is_space (hd s)"
  then obtain x xs where s: "s = x # xs" by (cases s) auto
  with h have nx: "\<not> is_space x" by simp
  have "strip s = x # rev (dropWhile is_space (rev xs))"
    using nx by (simp add: strip_def s dropWhile_snoc_keep)
  then show ?thesis using nx by simp
qed

lemma strip_Nil: "strip [] = []"
  by (simp add: strip_def)

lemma strip_strip: "strip (strip s) = strip s"
proof (cases "dropWhile is_space s = []")
  case True
  have "strip s = []" unfolding strip_def True by simp
  then show ?thesis by (simp add: strip_Nil)
next
  case False
  let ?t = "dropWhile is_space s"
  have ht: "\<not> is_space (hd ?t)" using False by (simp add: hd_dropWhile)
  have st: "strip ?t = strip s" by (simp add: strip_def)
  have d1: "dropWhile is_space (strip s) = strip s"
    using strip_head [OF False ht] st by simp
  have "strip (strip s) = rev (dropWhile is_space (rev (strip s)))"
    unfolding strip_def [of "strip s"] d1 ..
  also have "\<dots> = strip s" by (simp add: strip_def)
  finally show ?thesis .
qed

lemma qa_corrected_eq: "qa_corrected cc r = strip (corrected_text cc r)"
  by (simp add: qa_corrected_def corrected_text_def strip_Nil split: option.splits)

lemma eq_one_status: "eq_one (if notna c then c else CInt 0) = eq_one c"
  by (cases c) (simp_all add: notna_def)

lemma map_map_filter_enumerate:
  assumes "\<And>j r. map_option h (f j r) = (if P r then Some (g r) else None)"
  shows "map h (List.map_filter (\<lambda>(j, r). f j r) (enumerate i rs)) = map g (filter P rs)"
proof (induction rs arbitrary: i)
  case Nil
  show ?case by (simp add: List.map_filter_simps)
next
  case (Cons a rs)
  have A: "map_option h (f i a) = (if P a then Some (g a) else None)" by (rule assms)
  show ?case using A Cons.IH [of "Suc i"]
    by (cases "f i a") (auto simp: List.map_filter_simps split: if_splits)
qed

lemma row_document_answer:
  "map_option (md_answer \<circ> metadata) (row_document qc ac sc cc j r) =
      (if strip (cell_text (r qc)) \<noteq> [] \<and> strip (cell_text (r ac)) \<noteq> []
       then Some (if eq_one (r sc) \<and> strip (corrected_text cc r) \<noteq> []
               then strip (corrected_text cc r) else strip (cell_text (r ac))) else None)"
  by (simp add: row_document_def Let_def final_answer_def eq_one_status)

lemma row_qa_pair_answer:
  "map_option qa_answer (row_qa_pair qc ac cc j r) =
      (if \<not> (strip (cell_text (r qc)) = [] \<and> strip (corrected_text cc r) = [] \<and>
                         strip (cell_text (r ac)) = [])
       then Some (if strip (corrected_text cc r) \<noteq> []
               then strip (corrected_text cc r) else strip (cell_text (r ac))) else None)"
  by (simp add: row_qa_pair_def Let_def qa_corrected_eq strip_strip)

section \<open>Claims about the row converters\<close>

text \<open>
  C1 (as amended). The answers emitted, in row order, are one per kept row, and each is a
  function of its row alone, so neither converter depends on the order or the position of
  the rows. In the corpus builder the answer is the trimmed corrected answer when the
  status equals 1 and the corrected answer is not empty after trimming, and the trimmed
  original answer otherwise. In the QA extractor the answer is the trimmed corrected
  answer whenever it is not empty after trimming, whatever the status, and the trimmed
  original answer otherwise.
\<close>

theorem correction_override_policy:
  "map (md_answer \<circ> metadata) (build_documents qc ac sc cc i rs []) =
     map (\<lambda>r. if eq_one (r sc) \<and> strip (corrected_text cc r) \<noteq> []
               then strip (corrected_text cc r) else strip (cell_text (r ac)))
       (filter (\<lambda>r. strip (cell_text (r qc)) \<noteq> [] \<and> strip (cell_text (r ac)) \<noteq> []) rs)
   \<and>
   map qa_answer (extract_rows qc ac cc i rs []) =
     map (\<lambda>r. if strip (corrected_text cc r) \<noteq> []
               then strip (corrected_text cc r) else strip (cell_text (r ac)))
       (filter (\<lambda>r. \<not> (strip (cell_text (r qc)) = [] \<and> strip (corrected_text cc r) = [] \<and>
                         strip (cell_text (r ac)) = [])) rs)"
  unfolding build_documents_acc extract_rows_acc append_Nil
  by (intro conjI map_map_filter_enumerate row_document_answer row_qa_pair_answer)


text \<open>
  C1 as stated fails in the QA extractor: a row with status 0 and a corrected answer is
  emitted with the corrected answer, not the original one.
\<close>

theorem correction_override_counterexample:
  "map qa_answer
     (extract_qa_pairs
        \<lparr>excel_file_path = qa_source,
         data = Some \<lparr>columns = [lit ''question'', lit ''answer'', lit ''status'',
                                  lit ''corrected_answer''],
                       rows = [(\<lambda>c. CNaN)
                                 (lit ''question'' := CStr (lit ''q''),
                                  lit ''answer'' := CStr (lit ''a''),
                                  lit ''status'' := CInt 0,
                                  lit ''corrected_answer'' := CStr (lit ''c''))]\<rparr>\<rparr>)
   = [lit ''c''] \<and> \<not> eq_one (CInt 0) \<and> lit ''c'' \<noteq> lit ''a''"
  by (simp add: extract_qa_pairs_def resolve_qa_columns_def possible_question_cols_def
      possible_answer_cols_def possible_corrected_answer_cols_def lit_def row_qa_pair_def
      qa_corrected_def cell_text_def notna_def strip_def is_space_def Let_def)

lemma map_filter_enumerate_index:
  assumes "\<And>j r. map_option h (f j r) = (if P r then Some (k j) else None)"
  shows "map h (List.map_filter (\<lambda>(j, r). f j r) (enumerate i rs)) =
         map k (filter (\<lambda>j. P (rs ! (j - i))) [i..<i + length rs])"
proof (induction rs arbitrary: i)
  case Nil
  show ?case by (simp add: List.map_filter_simps)
next
  case (Cons a rs)
  have A: "map_option h (f i a) = (if P a then Some (k i) else None)" by (rule assms)
  have B: "filter (\<lambda>j. P ((a # rs) ! (j - i))) [Suc i..<Suc i + length rs] =
           filter (\<lambda>j. P (rs ! (j - Suc i))) [Suc i..<Suc i + length rs]"
  proof (rule filter_cong [OF refl])
    fix x assume "x \<in> set [Suc i..<Suc i + length rs]"
    then have "x - i = Suc (x - Suc i)" by auto
    then show "P ((a # rs) ! (x - i)) = P (rs ! (x - Suc i))" by simp
  qed
  have "[i..<Suc (i + length rs)] = i # [Suc i..<Suc (i + length rs)]"
    by (rule upt_conv_Cons) simp
  then have C: "[i..<i + length (a # rs)] = i # [Suc i..<Suc i + length rs]"
    by simp
  show ?case unfolding C using A B Cons.IH [of "Suc i"]
    by (cases "f i a") (auto simp: List.map_filter_simps split: if_splits)
qed

lemma row_document_index:
  "map_option (md_row_index \<circ> metadata) (row_document qc ac sc cc j r) =
     (if strip (cell_text (r qc)) \<noteq> [] \<and> strip (cell_text (r ac)) \<noteq> []
      then Some j else None)"
  by (simp add: row_document_def Let_def)

lemma row_qa_pair_id:
  "map_option qa_id (row_qa_pair qc ac cc j r) =
     (if \<not> (strip (cell_text (r qc)) = [] \<and> strip (corrected_text cc r) = [] \<and>
             strip (cell_text (r ac)) = [])
      then Some (Suc j) else None)"
  by (simp add: row_qa_pair_def Let_def qa_corrected_eq strip_strip)

text \<open>
  C2 (as amended). The corpus builder emits a document for exactly the rows whose question
  and original answer are both non-empty after trimming. The QA extractor emits a pair for
  every row but those whose question, corrected answer and original answer are all empty
  after trimming; its ids are the row positions counted from 1.
\<close>

theorem row_filtering:
  "map (md_row_index \<circ> metadata) (build_documents qc ac sc cc 0 rs []) =
     filter (\<lambda>j. strip (cell_text ((rs ! j) qc)) \<noteq> [] \<and> strip (cell_text ((rs ! j) ac)) \<noteq> [])
       [0..<length rs]
   \<and>
   map qa_id (extract_rows qc ac cc 0 rs []) =
     map Suc (filter (\<lambda>j. \<not> (strip (cell_text ((rs ! j) qc)) = [] \<and>
                               strip (corrected_text cc (rs ! j)) = [] \<and>
                               strip (cell_text ((rs ! j) ac)) = []))
                [0..<length rs])"
proof -
  have "map (md_row_index \<circ> metadata)
          (List.map_filter (\<lambda>(j, r). row_document qc ac sc cc j r) (enumerate 0 rs)) =
        map (\<lambda>j. j)
          (filter (\<lambda>j. strip (cell_text ((rs ! (j - 0)) qc)) \<noteq> [] \<and>
                       strip (cell_text ((rs ! (j - 0)) ac)) \<noteq> []) [0..<0 + length rs])"
    by (rule map_filter_enumerate_index) (rule row_document_index)
  moreover
  have "map qa_id (List.map_filter (\<lambda>(j, r). row_qa_pair qc ac cc j r) (enumerate 0 rs)) =
        map Suc
          (filter (\<lambda>j. \<not> (strip (cell_text ((rs ! (j - 0)) qc)) = [] \<and>
                          strip (corrected_text cc (rs ! (j - 0))) = [] \<and>
                          strip (cell_text ((rs ! (j - 0)) ac)) = [])) [0..<0 + length rs])"
    by (rule map_filter_enumerate_index) (rule row_qa_pair_id)
  ultimately show ?thesis
    by (simp add: build_documents_acc extract_rows_acc)
qed

text \<open>
  C2 as stated fails in the QA extractor: the row with the question of two spaces and the
  one-character answer U+65E0 is emitted, with an empty question.
\<close>

theorem row_filtering_counterexample:
  "extract_qa_pairs
     \<lparr>excel_file_path = qa_source,
      data = Some \<lparr>columns = [lit ''question'', lit ''answer''],
                    rows = [(\<lambda>c. CNaN)(lit ''question'' := CStr [32, 32],
                                         lit ''answer'' := CStr [26080])]\<rparr>\<rparr>
   = [\<lparr>qa_id = 1, qa_question = [], qa_answer = [26080],
       qa_metadata = \<lparr>qm_source = qa_source, qm_row_index = 1, qm_question_length = 0,
                      qm_answer_length = 1, qm_used_corrected_answer = False\<rparr>\<rparr>]"
  by (simp add: extract_qa_pairs_def resolve_qa_columns_def possible_question_cols_def
      possible_answer_cols_def possible_corrected_answer_cols_def lit_def row_qa_pair_def
      qa_corrected_def cell_text_def notna_def strip_def is_space_def Let_def)

lemma column_at_simps:
  "i < length cols \<Longrightarrow> column_at cols i = Inr (cols ! i)"
  "\<not> i < length cols \<Longrightarrow> column_at cols i = Inl (IndexError i (length cols))"
  by (simp_all add: column_at_def)

text \<open>
  C6 (as amended). Column-role resolution in the corpus builder fails exactly when the
  sheet has fewer than 3 columns, with the generic exception that wraps the IndexError of
  the first missing column; with at least 3 columns it succeeds by position, the fourth
  column being optional.
\<close>

theorem column_resolution:
  "resolve_columns cols =
     (if length cols < 3
      then Inl (Exception (lit ''Error reading Excel file: '' @
                           exn_str (IndexError (length cols) (length cols))))
      else Inr (cols ! 0, cols ! 1, cols ! 2,
                if 3 < length cols then Some (cols ! 3) else None))"
proof -
  consider "length cols = 0" | "length cols = 1" | "length cols = 2" | "3 \<le> length cols"
    by linarith
  then show ?thesis
  proof cases
    case 4
    then have "0 < length cols" "1 < length cols" "2 < length cols" by linarith+
    then show ?thesis using 4
      by (simp add: resolve_columns_def column_at_simps)
  qed (simp_all add: resolve_columns_def column_at_def reading_error_def)
qed

text \<open>
  C6 as stated fails at two columns: the status column is read unconditionally.
\<close>

theorem column_resolution_counterexample:
  "resolve_columns [lit ''question'', lit ''answer''] =
     Inl (Exception (lit ''Error reading Excel file: index 2 is out of bounds for axis 0 with size 2''))"
  by (simp add: resolve_columns_def column_at_def reading_error_def lit_def digits.simps)

section \<open>Lemmas about the batch pipelines\<close>








lemma nth_map_enumerate:
  "i < length xs \<Longrightarrow> map (\<lambda>(j, x). f j x) (enumerate n xs) ! i = f (n + i) (xs ! i)"
  by (simp add: nth_enumerate_eq)

section \<open>Claims about the batch pipelines\<close>

text \<open>
  C3. The claim asks that the record written for a question carries that question and its
  ground-truth answer, also when it comes from the per-item error branch. In
  \<^verbatim>\<open>process_all_questions\<close> of run/basellm.py the error branch builds its record from the
  loop variable of the submitting loop, which is the last pair of the batch. Here the first
  pair has no answer, its worker raises KeyError, and the record written for it carries the
  question and the answer of the second pair.
\<close>

theorem stale_pair_in_error_record:
  "written (process_all_questions llm
      [[''question'' \<mapsto> lit ''q1''],
       [''question'' \<mapsto> lit ''q2'', ''answer'' \<mapsto> lit ''a2'']]) =
     [\<lparr>user_input = lit ''q2'', response = lit ''Error: '' @ exn_str (KeyError ''answer''),
       retrieved_contexts = lit ''a2''\<rparr>,
      \<lparr>user_input = lit ''q2'', response = get_llm_response (llm 1) (lit ''q2''),
       retrieved_contexts = lit ''a2''\<rparr>]"
  by (simp add: process_all_questions_def submit_all_def enumerate_eq_zip
      process_single_question_def getitem_def error_record_def Let_def)








section \<open>Claims about the build script and the row limit\<close>

lemma extract_rows_ids:
  "p \<in> set (extract_rows qc ac cc i rs acc) \<Longrightarrow>
   p \<in> set acc \<or> (i < qa_id p \<and> qa_id p \<le> i + length rs \<and>
                      qm_row_index (qa_metadata p) = qa_id p)"
proof (induction rs arbitrary: i acc)
  case Nil
  then show ?case by simp
next
  case (Cons r rs)
  show ?case
  proof (cases "row_qa_pair qc ac cc i r")
    case None
    with Cons.prems have "p \<in> set (extract_rows qc ac cc (Suc i) rs acc)" by simp
    from Cons.IH [OF this] show ?thesis by auto
  next
    case (Some x)
    then have x: "qa_id x = Suc i" "qm_row_index (qa_metadata x) = Suc i"
      by (auto simp: row_qa_pair_def Let_def split: if_splits)
    from Some Cons.prems have "p \<in> set (extract_rows qc ac cc (Suc i) rs (acc @ [x]))" by simp
    from Cons.IH [OF this] x show ?thesis by auto
  qed
qed

lemma extract_qa_pairs_ids:
  assumes "p \<in> set (extract_qa_pairs self)" and "data self = Some df"
  shows "1 \<le> qa_id p \<and> qa_id p \<le> length (rows df) \<and> qm_row_index (qa_metadata p) = qa_id p"
proof -
  from assms obtain qc ac cc where "p \<in> set (extract_rows qc ac cc 0 (rows df) [])"
    by (auto simp: extract_qa_pairs_def split: option.splits)
  from extract_rows_ids [OF this] show ?thesis by auto
qed

text \<open>
  C10. \<^verbatim>\<open>main\<close> loads the workbook with \<^verbatim>\<open>max_rows=200\<close>: two workbooks whose first
  200 rows agree give the same pairs, whatever rows follow, and every pair has an id and a
  row index of at most 200.
\<close>

theorem row_cap:
  assumes "files (excel_file_path self) = Inr \<lparr>columns = cols, rows = first @ beyond\<rparr>"
    and "files' (excel_file_path self) = Inr \<lparr>columns = cols, rows = first @ beyond'\<rparr>"
    and "length first = 200"
  shows "main_qa_pairs files self = main_qa_pairs files' self \<and>
         (\<forall>pairs. main_qa_pairs files self = Some pairs \<longrightarrow>
            (\<forall>p\<in>set pairs. qa_id p \<le> 200 \<and> qm_row_index (qa_metadata p) \<le> 200))"
proof
  show "main_qa_pairs files self = main_qa_pairs files' self"
    using assms by (simp add: main_qa_pairs_def load_excel_data_def read_excel_def)
next
  show "\<forall>pairs. main_qa_pairs files self = Some pairs \<longrightarrow>
            (\<forall>p\<in>set pairs. qa_id p \<le> 200 \<and> qm_row_index (qa_metadata p) \<le> 200)"
  proof (intro allI impI ballI)
    fix pairs p
    assume m: "main_qa_pairs files self = Some pairs" and p: "p \<in> set pairs"
    let ?df = "\<lparr>columns = cols, rows = first\<rparr>"
    let ?self = "self\<lparr>data := Some ?df\<rparr>"
    from m assms have "pairs = extract_qa_pairs ?self"
      by (simp add: main_qa_pairs_def load_excel_data_def read_excel_def Let_def
          split: if_splits)
    with p have "p \<in> set (extract_qa_pairs ?self)" by simp
    from extract_qa_pairs_ids [OF this, of ?df] assms(3)
    show "qa_id p \<le> 200 \<and> qm_row_index (qa_metadata p) \<le> 200" by simp
  qed
qed

text \<open>A workbook of 201 rows and the same workbook cut after row 200.\<close>

theorem row_cap_witness:
  "length (replicate 200 (\<lambda>c. CStr (lit ''x''))) = 200 \<and>
   main_qa_pairs
     (\<lambda>path. Inr \<lparr>columns = [lit ''question'', lit ''answer''],
                  rows = replicate 200 (\<lambda>c. CStr (lit ''x'')) @ [\<lambda>c. CStr (lit ''y'')]\<rparr>)
     \<lparr>excel_file_path = qa_source, data = None\<rparr> =
   main_qa_pairs
     (\<lambda>path. Inr \<lparr>columns = [lit ''question'', lit ''answer''],
                  rows = replicate 200 (\<lambda>c. CStr (lit ''x'')) @ []\<rparr>)
     \<lparr>excel_file_path = qa_source, data = None\<rparr>"
  using row_cap [of
      "\<lambda>path. Inr \<lparr>columns = [lit ''question'', lit ''answer''],
                  rows = replicate 200 (\<lambda>c. CStr (lit ''x'')) @ [\<lambda>c. CStr (lit ''y'')]\<rparr>"
      "\<lparr>excel_file_path = qa_source, data = None\<rparr>"
      "[lit ''question'', lit ''answer'']"
      "replicate 200 (\<lambda>c. CStr (lit ''x''))" "[\<lambda>c. CStr (lit ''y'')]"
      "\<lambda>path. Inr \<lparr>columns = [lit ''question'', lit ''answer''],
                  rows = replicate 200 (\<lambda>c. CStr (lit ''x'')) @ []\<rparr>"
      "[]"]
  by simp

text \<open>
  C8. When the persistent directory exists, a run of the build script only reports that
  the store exists: it reads no file, splits nothing and writes no store, and leaves the
  world as it was. The existence of the path is the only thing tested. Since a store write
  that succeeds leaves the directory in place (the library's contract, taken as the
  hypothesis), a run that follows a completed run is such a report and nothing else.
\<close>

theorem build_idempotence:
  assumes "\<forall>docs w w'. from_documents docs persistent_directory w = (None, w') \<longrightarrow>
                       persistent_directory \<in> existing w'"
  shows "(persistent_directory \<in> existing w \<longrightarrow>
            builder split_documents from_documents file_path persistent_directory w = ([Say MsgAlreadyExists], None, w)) \<and>
         (\<forall>acts w1. builder split_documents from_documents file_path persistent_directory w = (acts, None, w1) \<longrightarrow>
            builder split_documents from_documents file_path persistent_directory w1 =
              ([Say MsgAlreadyExists], None, w1) \<and>
            filter build_step (fst (builder split_documents from_documents file_path persistent_directory w1)) = [])"
proof (intro conjI allI impI)
  assume "persistent_directory \<in> existing w"
  then show "builder split_documents from_documents file_path persistent_directory w = ([Say MsgAlreadyExists], None, w)"
    by (simp add: builder_def)
next
  fix acts w1
  assume run: "builder split_documents from_documents file_path persistent_directory w = (acts, None, w1)"
  have ex: "persistent_directory \<in> existing w1"
  proof (cases "persistent_directory \<in> existing w")
    case True
    with run show ?thesis by (simp add: builder_def)
  next
    case False
    with run show ?thesis
      by (auto simp: builder_def Let_def split: if_splits sum.splits prod.splits option.splits
          dest: assms [rule_format])
  qed
  then show "builder split_documents from_documents file_path persistent_directory w1 =
              ([Say MsgAlreadyExists], None, w1)"
    by (simp add: builder_def)
  then show "filter build_step (fst (builder split_documents from_documents file_path persistent_directory w1)) = []"
    by simp
qed

text \<open>
  A first run on a world without the directory, with a three-column workbook of one row and
  a store write that creates the directory: it ends without an exception and has written
  the store; the run that follows only reports that the store exists.
\<close>

theorem build_idempotence_witness:
  "fst (snd (builder (\<lambda>ds. ds) (\<lambda>docs d w. (None, w\<lparr>existing := insert d (existing w)\<rparr>))
        (lit ''f.xlsx'') (lit ''db'')
        \<lparr>existing = {lit ''f.xlsx''},
         excel_files = (\<lambda>p. Inr \<lparr>columns = [lit ''q'', lit ''a'', lit ''s''],
                                   rows = [\<lambda>c. CStr (lit ''x'')]\<rparr>)\<rparr>)) = None \<and>
   StoreWrite (lit ''db'') \<in> set (fst
     (builder (\<lambda>ds. ds) (\<lambda>docs d w. (None, w\<lparr>existing := insert d (existing w)\<rparr>))
        (lit ''f.xlsx'') (lit ''db'')
        \<lparr>existing = {lit ''f.xlsx''},
         excel_files = (\<lambda>p. Inr \<lparr>columns = [lit ''q'', lit ''a'', lit ''s''],
                                   rows = [\<lambda>c. CStr (lit ''x'')]\<rparr>)\<rparr>)) \<and>
   fst (builder (\<lambda>ds. ds) (\<lambda>docs d w. (None, w\<lparr>existing := insert d (existing w)\<rparr>))
        (lit ''f.xlsx'') (lit ''db'')
        (snd (snd (builder (\<lambda>ds. ds)
           (\<lambda>docs d w. (None, w\<lparr>existing := insert d (existing w)\<rparr>))
           (lit ''f.xlsx'') (lit ''db'')
           \<lparr>existing = {lit ''f.xlsx''},
            excel_files = (\<lambda>p. Inr \<lparr>columns = [lit ''q'', lit ''a'', lit ''s''],
                                      rows = [\<lambda>c. CStr (lit ''x'')]\<rparr>)\<rparr>)))) =
     [Say MsgAlreadyExists]"
proof -
  let ?fd = "\<lambda>(docs :: document list) d w.
               (None :: pyexn option, w\<lparr>existing := insert d (existing w)\<rparr>)"
  let ?w = "\<lparr>existing = {lit ''f.xlsx''},
            excel_files = (\<lambda>p. Inr \<lparr>columns = [lit ''q'', lit ''a'', lit ''s''],
                                      rows = [\<lambda>c. CStr (lit ''x'')]\<rparr>)\<rparr>"
  let ?b = "builder (\<lambda>ds. ds) ?fd (lit ''f.xlsx'') (lit ''db'') ?w"
  have cols: "resolve_columns [lit ''q'', lit ''a'', lit ''s''] =
                Inr (lit ''q'', lit ''a'', lit ''s'', None)"
    by (simp add: resolve_columns_def column_at_def)
  have absent: "lit ''db'' \<noteq> lit ''f.xlsx''"
    by (simp add: lit_def)
  have persist: "\<forall>docs w w'. ?fd docs (lit ''db'') w = (None, w') \<longrightarrow> lit ''db'' \<in> existing w'"
    by auto
  have e: "fst (snd ?b) = None"
    by (simp add: builder_def read_excel_def cols absent Let_def)
  have s: "StoreWrite (lit ''db'') \<in> set (fst ?b)"
    by (simp add: builder_def read_excel_def cols absent Let_def)
  have "?b = (fst ?b, None, snd (snd ?b))"
    using e by (simp add: prod_eq_iff)
  with build_idempotence [where split_documents = "\<lambda>ds. ds" and file_path = "lit ''f.xlsx''"
      and w = ?w and from_documents = ?fd and persistent_directory = "lit ''db''", OF persist]
  have "builder (\<lambda>ds. ds) ?fd (lit ''f.xlsx'') (lit ''db'') (snd (snd ?b)) =
          ([Say MsgAlreadyExists], None, snd (snd ?b))"
    by blast
  then have "fst (builder (\<lambda>ds. ds) ?fd (lit ''f.xlsx'') (lit ''db'') (snd (snd ?b))) =
          [Say MsgAlreadyExists]"
    by simp
  with e s show ?thesis by blast
qed

end
